theory Spec2Isabelle
  imports Main "HOL-Library.Word" "HOL-Library.Char_ord" "HOL-Library.List_Lexorder"
begin

unbundle bit_operations_syntax

section \<open>Expression nodes\<close>

text \<open>
  The expression core of CSymPy: \<^verbatim>\<open>src/functions.cpp\<close> implements the classes
  \<^verbatim>\<open>Sin\<close>, \<^verbatim>\<open>Cos\<close>, \<^verbatim>\<open>FunctionSymbol\<close> and \<^verbatim>\<open>Derivative\<close>
  over the base class \<^verbatim>\<open>Basic\<close>. A node is immutable and its children are complete
  nodes, so a node is a finite tree. The fields are those of the classes:
  \<^verbatim>\<open>Sin::arg_\<close>, \<^verbatim>\<open>Cos::arg_\<close>, \<^verbatim>\<open>FunctionSymbol::name_, arg_\<close>,
  \<^verbatim>\<open>Derivative::arg_, x_\<close>. The member \<^verbatim>\<open>x_\<close> is a
  \<^verbatim>\<open>std::vector<RCP<const Symbol>>\<close>; a symbol is its name, so the vector is a
  list of names. The classes \<^verbatim>\<open>Integer\<close>, \<^verbatim>\<open>Rational\<close>, \<^verbatim>\<open>Symbol\<close>,
  \<^verbatim>\<open>Add\<close>, \<^verbatim>\<open>Mul\<close> and \<^verbatim>\<open>Pow\<close> are declared in headers that are not
  part of the sources; their shape follows section 3 of the specification (numeric
  leaves, a named leaf, operand lists, base and exponent). The constructor of
  \<^verbatim>\<open>Pow\<close> is written \<open>Pow'\<close>.

  Each constructor has its discriminator, the \<^verbatim>\<open>is_a<T>(o)\<close> test of the code.
\<close>

datatype basic =
    is_a_Integer: Integer int
  | is_a_Rational: Rational int int
  | is_a_Symbol: Symbol string
  | is_a_Add: Add "basic list"
  | is_a_Mul: Mul "basic list"
  | is_a_Pow: Pow' basic basic
  | is_a_Sin: Sin basic
  | is_a_Cos: Cos basic
  | is_a_FunctionSymbol: FunctionSymbol string basic
  | is_a_Derivative: Derivative basic "string list"

text \<open>The closed set of node kinds (the dynamic type of a node).\<close>

datatype kind =
    IntegerK | RationalK | SymbolK | AddK | MulK | PowK
  | SinK | CosK | FunctionSymbolK | DerivativeK

fun kind_of :: "basic \<Rightarrow> kind" where
  "kind_of (Integer i) = IntegerK"
| "kind_of (Rational n d) = RationalK"
| "kind_of (Symbol name) = SymbolK"
| "kind_of (Add xs) = AddK"
| "kind_of (Mul xs) = MulK"
| "kind_of (Pow' b e) = PowK"
| "kind_of (Sin arg) = SinK"
| "kind_of (Cos arg) = CosK"
| "kind_of (FunctionSymbol name arg) = FunctionSymbolK"
| "kind_of (Derivative arg x) = DerivativeK"

text \<open>
  The failures of the code: \<^verbatim>\<open>CSYMPY_ASSERT\<close> aborts the program when its condition
  is false; the rational constructor signals \<^verbatim>\<open>InvalidRational\<close>.
\<close>

datatype error = AssertionFailed | InvalidRational

text \<open>
  Modelled from the spec: the global singleton nodes \<^verbatim>\<open>zero\<close>, \<^verbatim>\<open>one\<close> and
  \<^verbatim>\<open>minus_one\<close> (section 5; their definitions are not part of the sources) are the
  integers 0, 1 and -1.
\<close>

definition zero :: basic where
  "zero = Integer 0"

definition one :: basic where
  "one = Integer 1"

definition minus_one :: basic where
  "minus_one = Integer (- 1)"

text \<open>
  Modelled from the spec: \<^verbatim>\<open>Integer::is_zero\<close> (not part of the sources) tests the
  wrapped value against 0. It is only called on an \<^verbatim>\<open>Integer\<close>, after
  \<^verbatim>\<open>is_a<Integer>\<close>.
\<close>

definition is_zero :: "basic \<Rightarrow> bool" where
  "is_zero a = (case a of Integer i \<Rightarrow> i = 0 | _ \<Rightarrow> False)"

text \<open>\<^verbatim>\<open>s2b\<close>: the conversion of a vector of symbols into a vector of nodes.\<close>

definition s2b :: "string list \<Rightarrow> basic list" where
  "s2b x = map Symbol x"

subsection \<open>Structural equality\<close>

text \<open>A size of nodes that counts the variables of a derivative, for termination.\<close>

fun weight :: "basic \<Rightarrow> nat" where
  "weight (Integer i) = 1"
| "weight (Rational n d) = 1"
| "weight (Symbol name) = 1"
| "weight (Add xs) = Suc (sum_list (map weight xs))"
| "weight (Mul xs) = Suc (sum_list (map weight xs))"
| "weight (Pow' b e) = Suc (weight b + weight e)"
| "weight (Sin arg) = Suc (weight arg)"
| "weight (Cos arg) = Suc (weight arg)"
| "weight (FunctionSymbol name arg) = Suc (weight arg)"
| "weight (Derivative arg x) = Suc (weight arg + length x)"

text \<open>
  \<^verbatim>\<open>eq(a, b)\<close> is \<^verbatim>\<open>a->__eq__(*b)\<close>, dispatched on the kind of \<^verbatim>\<open>a\<close>.
  The equations for \<^verbatim>\<open>Sin\<close>, \<^verbatim>\<open>Cos\<close>, \<^verbatim>\<open>FunctionSymbol\<close> and
  \<^verbatim>\<open>Derivative\<close> are \<^verbatim>\<open>Sin::__eq__\<close>, \<^verbatim>\<open>Cos::__eq__\<close>,
  \<^verbatim>\<open>FunctionSymbol::__eq__\<close> and \<^verbatim>\<open>Derivative::__eq__\<close> of the sources.

  Modelled from the spec: \<^verbatim>\<open>__eq__\<close> of \<^verbatim>\<open>Integer\<close>, \<^verbatim>\<open>Rational\<close>,
  \<^verbatim>\<open>Symbol\<close>, \<^verbatim>\<open>Add\<close>, \<^verbatim>\<open>Mul\<close>, \<^verbatim>\<open>Pow\<close> and the helper
  \<^verbatim>\<open>vec_basic_eq\<close> are not part of the sources. Section 4.1: equals is true iff the
  nodes have the same concrete kind and all corresponding children are structurally
  equal; two vectors are equal when they have the same length and equal elements.
\<close>

function eq :: "basic \<Rightarrow> basic \<Rightarrow> bool"
  and vec_basic_eq :: "basic list \<Rightarrow> basic list \<Rightarrow> bool"
where
  "eq (Integer i) o' = (case o' of Integer j \<Rightarrow> i = j | _ \<Rightarrow> False)"
| "eq (Rational n d) o' = (case o' of Rational m e \<Rightarrow> n = m \<and> d = e | _ \<Rightarrow> False)"
| "eq (Symbol name) o' = (case o' of Symbol oname \<Rightarrow> name = oname | _ \<Rightarrow> False)"
| "eq (Add xs) o' = (case o' of Add ys \<Rightarrow> vec_basic_eq xs ys | _ \<Rightarrow> False)"
| "eq (Mul xs) o' = (case o' of Mul ys \<Rightarrow> vec_basic_eq xs ys | _ \<Rightarrow> False)"
| "eq (Pow' b e) o' = (case o' of Pow' ob oe \<Rightarrow> eq b ob \<and> eq e oe | _ \<Rightarrow> False)"
| "eq (Sin arg) o' = (case o' of Sin oarg \<Rightarrow> eq arg oarg | _ \<Rightarrow> False)"
| "eq (Cos arg) o' = (case o' of Cos oarg \<Rightarrow> eq arg oarg | _ \<Rightarrow> False)"
| "eq (FunctionSymbol name arg) o' =
     (case o' of FunctionSymbol oname oarg \<Rightarrow> name = oname \<and> eq arg oarg | _ \<Rightarrow> False)"
| "eq (Derivative arg x) o' =
     (case o' of Derivative oarg ox \<Rightarrow> eq arg oarg \<and> vec_basic_eq (s2b x) (s2b ox)
      | _ \<Rightarrow> False)"
| "vec_basic_eq [] b = (b = [])"
| "vec_basic_eq (x # a) b =
     (case b of [] \<Rightarrow> False | y # b' \<Rightarrow> eq x y \<and> vec_basic_eq a b')"
  by pat_completeness auto
termination
proof -
  have pos: "0 < weight a" for a
    by (cases a) simp_all
  have vars: "sum_list (map weight (s2b x)) = length x" for x
    by (induction x) (simp_all add: s2b_def)
  show ?thesis
    by (relation "measure (\<lambda>v. case v of Inl (a, b) \<Rightarrow> 2 * weight a
                                         | Inr (a, b) \<Rightarrow> Suc (2 * sum_list (map weight a)))")
       (auto simp: vars pos)
qed

subsection \<open>Parts outside the sources\<close>

text \<open>
  \<^verbatim>\<open>std::size_t\<close> on the 64-bit targets of the library.
\<close>

type_synonym size_t = "64 word"

text \<open>
  The methods of this file call functions whose code is not part of the sources and
  whose results the specification does not fix. They are parameters of the model; a
  theorem that mentions none of their properties holds for every choice.
  \<^item> \<open>hash_combine seed h\<close>: the new seed that \<^verbatim>\<open>hash_combine<T>(seed, v)\<close> stores,
    where \<open>h\<close> is the hash of \<^verbatim>\<open>v\<close>;
  \<^item> \<open>hash_string\<close>: \<^verbatim>\<open>std::hash<std::string>\<close>;
  \<^item> \<open>hash_other\<close>: \<^verbatim>\<open>__hash__\<close> of the kinds implemented elsewhere
    (\<^verbatim>\<open>Integer\<close>, \<^verbatim>\<open>Rational\<close>, \<^verbatim>\<open>Symbol\<close>, \<^verbatim>\<open>Add\<close>, \<^verbatim>\<open>Mul\<close>,
    \<^verbatim>\<open>Pow\<close>);
  \<^item> \<open>kind_rank\<close>: the fixed rank of each kind used by \<^verbatim>\<open>Basic::__cmp__\<close>;
  \<^item> \<open>compare_other\<close>: \<^verbatim>\<open>compare\<close> of the kinds implemented elsewhere;
  \<^item> \<open>vec_basic_compare\<close>: the comparison of two vectors of nodes;
  \<^item> \<open>mul\<close>: the canonical constructor of products;
  \<^item> \<open>diff_other\<close>: \<^verbatim>\<open>diff\<close> of \<^verbatim>\<open>Add\<close>, \<^verbatim>\<open>Mul\<close> and \<^verbatim>\<open>Pow\<close>.
\<close>

record externals =
  hash_combine :: "size_t \<Rightarrow> size_t \<Rightarrow> size_t"
  hash_string :: "string \<Rightarrow> size_t"
  hash_other :: "basic \<Rightarrow> size_t"
  kind_rank :: "kind \<Rightarrow> nat"
  compare_other :: "basic \<Rightarrow> basic \<Rightarrow> int"
  vec_basic_compare :: "basic list \<Rightarrow> basic list \<Rightarrow> int"
  mul :: "basic \<Rightarrow> basic \<Rightarrow> basic"
  diff_other :: "basic \<Rightarrow> string \<Rightarrow> basic"

subsection \<open>Hashing\<close>

text \<open>
  \<^verbatim>\<open>Sin::__hash__\<close>, \<^verbatim>\<open>Cos::__hash__\<close>, \<^verbatim>\<open>FunctionSymbol::__hash__\<close> and
  \<^verbatim>\<open>Derivative::__hash__\<close>. Each starts with \<^verbatim>\<open>std::size_t seed = 0\<close> and
  feeds the children to \<^verbatim>\<open>hash_combine\<close>, which hashes a node by calling its
  \<^verbatim>\<open>hash()\<close>; \<^verbatim>\<open>hash()\<close> is declared outside the sources and is taken to
  return the value of \<^verbatim>\<open>__hash__()\<close>. The loop of \<^verbatim>\<open>Derivative::__hash__\<close>
  runs over \<^verbatim>\<open>x_\<close> from index 0 upwards.
\<close>

fun hash :: "externals \<Rightarrow> basic \<Rightarrow> size_t" where
  "hash E (Sin arg) =
     (let seed = 0;
          seed = hash_combine E seed (hash E arg)
      in seed)"
| "hash E (Cos arg) =
     (let seed = 0;
          seed = hash_combine E seed (hash E arg)
      in seed)"
| "hash E (FunctionSymbol name arg) =
     (let seed = 0;
          seed = hash_combine E seed (hash E arg);
          seed = hash_combine E seed (hash_string E name)
      in seed)"
| "hash E (Derivative arg x) =
     (let seed = 0;
          seed = hash_combine E seed (hash E arg)
      in fold (\<lambda>xi seed. hash_combine E seed (hash E (Symbol xi))) x seed)"
| "hash E a = hash_other E a"

subsection \<open>The total order\<close>

text \<open>
  \<^verbatim>\<open>CSYMPY_ASSERT(c)\<close> is modelled with the assertions enabled: a false condition
  ends the call with \<open>Inl AssertionFailed\<close>.

  Modelled from the spec: \<^verbatim>\<open>Basic::__cmp__\<close> (\<open>cmp\<close>; its code is not part of the
  sources). Section 4.1: nodes of different kinds are ranked by a fixed per-kind rank,
  nodes of the same kind are compared by the \<^verbatim>\<open>compare\<close> method of their kind.

  \<open>compare\<close> is the virtual method: \<^verbatim>\<open>Sin::compare\<close>, \<^verbatim>\<open>Cos::compare\<close>,
  \<^verbatim>\<open>FunctionSymbol::compare\<close> and \<^verbatim>\<open>Derivative::compare\<close> of the sources, and
  the parameter \<open>compare_other\<close> for the other kinds. \<^verbatim>\<open>Sin::compare\<close> and
  \<^verbatim>\<open>Cos::compare\<close> pass the other node \<^verbatim>\<open>s\<close> itself to
  \<^verbatim>\<open>arg_->__cmp__\<close>; \<^verbatim>\<open>FunctionSymbol::compare\<close> and
  \<^verbatim>\<open>Derivative::compare\<close> pass \<^verbatim>\<open>*(s.arg_)\<close>. The names of two function
  symbols are compared as \<^verbatim>\<open>std::string\<close>s, byte by byte.
\<close>

fun cmp :: "externals \<Rightarrow> basic \<Rightarrow> basic \<Rightarrow> error + int"
  and compare :: "externals \<Rightarrow> basic \<Rightarrow> basic \<Rightarrow> error + int"
where
  "cmp E a o' =
     (if kind_of a = kind_of o' then compare E a o'
      else Inr (if kind_rank E (kind_of a) < kind_rank E (kind_of o') then - 1 else 1))"
| "compare E (Sin arg) o' =
     (if is_a_Sin o' then cmp E arg o' else Inl AssertionFailed)"
| "compare E (Cos arg) o' =
     (if is_a_Cos o' then cmp E arg o' else Inl AssertionFailed)"
| "compare E (FunctionSymbol name arg) o' =
     (case o' of
        FunctionSymbol sname sarg \<Rightarrow>
          if name = sname then cmp E arg sarg
          else Inr (if name < sname then - 1 else 1)
      | _ \<Rightarrow> Inl AssertionFailed)"
| "compare E (Derivative arg x) o' =
     (case o' of
        Derivative sarg sx \<Rightarrow>
          (case cmp E arg sarg of
             Inl e \<Rightarrow> Inl e
           | Inr c \<Rightarrow>
               if c \<noteq> 0 then Inr c
               else Inr (vec_basic_compare E (s2b x) (s2b sx)))
      | _ \<Rightarrow> Inl AssertionFailed)"
| "compare E a o' = Inr (compare_other E a o')"

subsection \<open>Canonical constructors\<close>

text \<open>
  \<^verbatim>\<open>Sin::is_canonical\<close> and \<^verbatim>\<open>Cos::is_canonical\<close> reject the integer zero and
  nothing else; \<^verbatim>\<open>FunctionSymbol::is_canonical\<close> and
  \<^verbatim>\<open>Derivative::is_canonical\<close> accept every argument.
\<close>

definition Sin_is_canonical :: "basic \<Rightarrow> bool" where
  "Sin_is_canonical arg = (if is_a_Integer arg \<and> is_zero arg then False else True)"

definition Cos_is_canonical :: "basic \<Rightarrow> bool" where
  "Cos_is_canonical arg = (if is_a_Integer arg \<and> is_zero arg then False else True)"

definition FunctionSymbol_is_canonical :: "basic \<Rightarrow> bool" where
  "FunctionSymbol_is_canonical arg = True"

definition Derivative_is_canonical :: "basic \<Rightarrow> bool" where
  "Derivative_is_canonical arg = True"

text \<open>
  The C++ constructors (\<^verbatim>\<open>new Sin(arg)\<close> and so on): they store the fields and
  assert \<^verbatim>\<open>is_canonical(arg)\<close>.
\<close>

definition Sin_new :: "basic \<Rightarrow> error + basic" where
  "Sin_new arg = (if Sin_is_canonical arg then Inr (Sin arg) else Inl AssertionFailed)"

definition Cos_new :: "basic \<Rightarrow> error + basic" where
  "Cos_new arg = (if Cos_is_canonical arg then Inr (Cos arg) else Inl AssertionFailed)"

definition FunctionSymbol_new :: "string \<Rightarrow> basic \<Rightarrow> error + basic" where
  "FunctionSymbol_new name arg =
     (if FunctionSymbol_is_canonical arg then Inr (FunctionSymbol name arg)
      else Inl AssertionFailed)"

definition Derivative_new :: "basic \<Rightarrow> string list \<Rightarrow> error + basic" where
  "Derivative_new arg x =
     (if Derivative_is_canonical arg then Inr (Derivative arg x)
      else Inl AssertionFailed)"

text \<open>The canonical constructors \<^verbatim>\<open>sin\<close>, \<^verbatim>\<open>cos\<close> and \<^verbatim>\<open>function_symbol\<close>.\<close>

definition sin :: "basic \<Rightarrow> error + basic" where
  "sin arg = (if eq arg zero then Inr zero else Sin_new arg)"

definition cos :: "basic \<Rightarrow> error + basic" where
  "cos arg = (if eq arg zero then Inr one else Cos_new arg)"

definition function_symbol :: "string \<Rightarrow> basic \<Rightarrow> error + basic" where
  "function_symbol name arg = FunctionSymbol_new name arg"

subsection \<open>Differentiation\<close>

text \<open>
  Modelled from the spec: \<^verbatim>\<open>Integer::diff\<close>, \<^verbatim>\<open>Rational::diff\<close> and
  \<^verbatim>\<open>Symbol::diff\<close> are not part of the sources. The table of section 4.4: a
  number gives \<^verbatim>\<open>zero\<close>, the symbol equal to the variable gives \<^verbatim>\<open>one\<close>, any
  other symbol gives \<^verbatim>\<open>zero\<close>.
\<close>

definition Integer_diff :: "int \<Rightarrow> string \<Rightarrow> basic" where
  "Integer_diff i x = zero"

definition Rational_diff :: "int \<Rightarrow> int \<Rightarrow> string \<Rightarrow> basic" where
  "Rational_diff n d x = zero"

definition Symbol_diff :: "string \<Rightarrow> string \<Rightarrow> basic" where
  "Symbol_diff name x = (if name = x then one else zero)"

text \<open>
  \<^verbatim>\<open>Sin::diff\<close>, \<^verbatim>\<open>Cos::diff\<close>, \<^verbatim>\<open>FunctionSymbol::diff\<close> and
  \<^verbatim>\<open>Derivative::diff\<close> of the sources; \<open>diff\<close> is the virtual call. The variable
  is a \<^verbatim>\<open>RCP<const Symbol>\<close>, that is, a name. In \<^verbatim>\<open>FunctionSymbol::diff\<close> the
  node \<^verbatim>\<open>rcp(this)\<close> is the function symbol itself. C++ leaves the order open in
  which the two arguments of \<^verbatim>\<open>mul\<close> are evaluated; the only effect of either is
  a failed assertion, so the order cannot change the result. The table of section 4.4
  has no row for \<^verbatim>\<open>Add\<close>, \<^verbatim>\<open>Mul\<close> and \<^verbatim>\<open>Pow\<close>: their derivative is the
  parameter \<open>diff_other\<close>.
\<close>

fun diff :: "externals \<Rightarrow> basic \<Rightarrow> string \<Rightarrow> error + basic" where
  "diff E (Integer i) x = Inr (Integer_diff i x)"
| "diff E (Rational n d) x = Inr (Rational_diff n d x)"
| "diff E (Symbol name) x = Inr (Symbol_diff name x)"
| "diff E (Sin arg) x =
     (case cos arg of
        Inl e \<Rightarrow> Inl e
      | Inr c \<Rightarrow>
          (case diff E arg x of
             Inl e \<Rightarrow> Inl e
           | Inr d \<Rightarrow> Inr (mul E c d)))"
| "diff E (Cos arg) x =
     (case sin arg of
        Inl e \<Rightarrow> Inl e
      | Inr s \<Rightarrow>
          (case diff E arg x of
             Inl e \<Rightarrow> Inl e
           | Inr d \<Rightarrow> Inr (mul E (mul E minus_one s) d)))"
| "diff E (FunctionSymbol name arg) x =
     (case diff E arg x of
        Inl e \<Rightarrow> Inl e
      | Inr d \<Rightarrow>
          if eq d zero then Inr zero
          else (let t = [];
                    t = t @ [x]
                in Derivative_new (FunctionSymbol name arg) t))"
| "diff E (Derivative arg xs) x =
     (let t = xs;
          t = t @ [x]
      in Derivative_new arg t)"
| "diff E a x = Inr (diff_other E a x)"

section \<open>Nodes with their addresses\<close>

text \<open>
  \<^verbatim>\<open>Sin::subs\<close> and \<^verbatim>\<open>Cos::subs\<close> compare two \<^verbatim>\<open>RCP\<close>s with \<^verbatim>\<open>==\<close>,
  which compares the addresses of the objects they point to. Hashing, equality,
  comparison and differentiation never read an address; substitution does. For
  substitution a reference is therefore the address of an object together with the
  object, whose children are references again. \<open>ptr\<close> is the raw pointer and
  \<open>deref\<close> the node pointed to, as the rest of the code sees it.
\<close>

type_synonym addr = nat

datatype rcp =
    IntegerP addr int
  | RationalP addr int int
  | SymbolP addr string
  | AddP addr "rcp list"
  | MulP addr "rcp list"
  | PowP addr rcp rcp
  | SinP addr rcp
  | CosP addr rcp
  | FunctionSymbolP addr string rcp
  | DerivativeP addr rcp "(addr \<times> string) list"

fun ptr :: "rcp \<Rightarrow> addr" where
  "ptr (IntegerP p i) = p"
| "ptr (RationalP p n d) = p"
| "ptr (SymbolP p name) = p"
| "ptr (AddP p xs) = p"
| "ptr (MulP p xs) = p"
| "ptr (PowP p b e) = p"
| "ptr (SinP p arg) = p"
| "ptr (CosP p arg) = p"
| "ptr (FunctionSymbolP p name arg) = p"
| "ptr (DerivativeP p arg x) = p"

fun deref :: "rcp \<Rightarrow> basic" where
  "deref (IntegerP p i) = Integer i"
| "deref (RationalP p n d) = Rational n d"
| "deref (SymbolP p name) = Symbol name"
| "deref (AddP p xs) = Add (map deref xs)"
| "deref (MulP p xs) = Mul (map deref xs)"
| "deref (PowP p b e) = Pow' (deref b) (deref e)"
| "deref (SinP p arg) = Sin (deref arg)"
| "deref (CosP p arg) = Cos (deref arg)"
| "deref (FunctionSymbolP p name arg) = FunctionSymbol name (deref arg)"
| "deref (DerivativeP p arg x) = Derivative (deref arg) (map snd x)"

text \<open>
  Modelled from the spec: the singletons \<^verbatim>\<open>zero\<close> and \<^verbatim>\<open>one\<close> are initialised
  once, before any other node (section 5); they are the objects at the addresses 0
  and 1.
\<close>

definition zero_rcp :: rcp where
  "zero_rcp = IntegerP 0 0"

definition one_rcp :: rcp where
  "one_rcp = IntegerP 1 1"

text \<open>
  Modelled from the spec: \<^verbatim>\<open>map_basic_basic\<close> (declared outside the sources) is the
  substitution mapping of section 3, from a node as exact structural key to its
  replacement. \<^verbatim>\<open>subs_dict.find(self)\<close> looks the node up by its structure.
\<close>

type_synonym map_basic_basic = "basic \<rightharpoonup> rcp"

text \<open>
  \<^verbatim>\<open>rcp(new Sin(arg))\<close> and \<^verbatim>\<open>rcp(new Cos(arg))\<close> with the allocation made
  explicit: the state is the next free address, the new object is placed there.
  \<^verbatim>\<open>sin\<close> and \<^verbatim>\<open>cos\<close> return the existing singleton, or allocate.
\<close>

definition Sin_new_rcp :: "rcp \<Rightarrow> addr \<Rightarrow> error + rcp \<times> addr" where
  "Sin_new_rcp arg s =
     (if Sin_is_canonical (deref arg) then Inr (SinP s arg, Suc s)
      else Inl AssertionFailed)"

definition Cos_new_rcp :: "rcp \<Rightarrow> addr \<Rightarrow> error + rcp \<times> addr" where
  "Cos_new_rcp arg s =
     (if Cos_is_canonical (deref arg) then Inr (CosP s arg, Suc s)
      else Inl AssertionFailed)"

definition sin_rcp :: "rcp \<Rightarrow> addr \<Rightarrow> error + rcp \<times> addr" where
  "sin_rcp arg s =
     (if eq (deref arg) (deref zero_rcp) then Inr (zero_rcp, s) else Sin_new_rcp arg s)"

definition cos_rcp :: "rcp \<Rightarrow> addr \<Rightarrow> error + rcp \<times> addr" where
  "cos_rcp arg s =
     (if eq (deref arg) (deref zero_rcp) then Inr (one_rcp, s) else Cos_new_rcp arg s)"

text \<open>
  Modelled from the spec: \<^verbatim>\<open>subs\<close> of the leaves \<^verbatim>\<open>Integer\<close>,
  \<^verbatim>\<open>Rational\<close> and \<^verbatim>\<open>Symbol\<close> is not part of the sources. Steps 1 and 3 of
  section 4.4: a node that is a key of the mapping is replaced by the mapped value;
  a leaf has no child to change, so any other leaf is returned unchanged.
\<close>

definition leaf_subs :: "map_basic_basic \<Rightarrow> rcp \<Rightarrow> addr \<Rightarrow> error + rcp \<times> addr" where
  "leaf_subs subs_dict self s =
     (case subs_dict (deref self) of Some v \<Rightarrow> Inr (v, s) | None \<Rightarrow> Inr (self, s))"

text \<open>
  \<^verbatim>\<open>Sin::subs\<close> and \<^verbatim>\<open>Cos::subs\<close> of the sources: look the node up, substitute
  in the argument, return the node itself when the argument's pointer did not change,
  otherwise call \<^verbatim>\<open>sin\<close> or \<^verbatim>\<open>cos\<close>. The member \<^verbatim>\<open>arg_\<close> is
  \<open>arg\<close> and the local variable \<^verbatim>\<open>arg\<close> is \<open>arg'\<close>.

  The sources define no \<^verbatim>\<open>subs\<close> for \<^verbatim>\<open>FunctionSymbol\<close> and \<^verbatim>\<open>Derivative\<close>
  (they inherit it), and none for \<^verbatim>\<open>Add\<close>, \<^verbatim>\<open>Mul\<close> and \<^verbatim>\<open>Pow\<close>: for these
  kinds substitution is the parameter \<open>subs_other\<close>.
\<close>

fun subs ::
  "(map_basic_basic \<Rightarrow> rcp \<Rightarrow> addr \<Rightarrow> error + rcp \<times> addr) \<Rightarrow>
    map_basic_basic \<Rightarrow> rcp \<Rightarrow> addr \<Rightarrow> error + rcp \<times> addr"
where
  "subs subs_other subs_dict (SinP p arg) s =
     (let self = SinP p arg in
      case subs_dict (deref self) of
        Some v \<Rightarrow> Inr (v, s)
      | None \<Rightarrow>
          (case subs subs_other subs_dict arg s of
             Inl e \<Rightarrow> Inl e
           | Inr (arg', s') \<Rightarrow>
               if ptr arg' = ptr arg then Inr (self, s')
               else sin_rcp arg' s'))"
| "subs subs_other subs_dict (CosP p arg) s =
     (let self = CosP p arg in
      case subs_dict (deref self) of
        Some v \<Rightarrow> Inr (v, s)
      | None \<Rightarrow>
          (case subs subs_other subs_dict arg s of
             Inl e \<Rightarrow> Inl e
           | Inr (arg', s') \<Rightarrow>
               if ptr arg' = ptr arg then Inr (self, s')
               else cos_rcp arg' s'))"
| "subs subs_other subs_dict (IntegerP p i) s = leaf_subs subs_dict (IntegerP p i) s"
| "subs subs_other subs_dict (RationalP p n d) s = leaf_subs subs_dict (RationalP p n d) s"
| "subs subs_other subs_dict (SymbolP p name) s = leaf_subs subs_dict (SymbolP p name) s"
| "subs subs_other subs_dict a s = subs_other subs_dict a s"

text \<open>
  Modelled from the spec: \<^verbatim>\<open>subs\<close> as section 4.4 describes it for every kind;
  it stands for the \<^verbatim>\<open>subs\<close> methods that are not part of the sources
  (\<^verbatim>\<open>Add\<close>, \<^verbatim>\<open>Mul\<close>, \<^verbatim>\<open>Pow\<close>, \<^verbatim>\<open>FunctionSymbol\<close>,
  \<^verbatim>\<open>Derivative\<close>). Step 1: a node that is a key of the mapping is replaced by the
  mapped value. Step 2: otherwise each child is substituted into, from left to right.
  Step 3: if no child changed, the original node is returned. Step 4: otherwise the
  node is rebuilt through the canonical constructor of its kind. A child has changed
  when another object comes back for it, which is the test \<^verbatim>\<open>arg == arg_\<close> of
  \<^verbatim>\<open>Sin::subs\<close> and \<^verbatim>\<open>Cos::subs\<close>. The children of a node are the nodes it
  holds: the operands, base and exponent, the argument, and for a derivative the
  expression followed by its variables. The canonical constructors are \<^verbatim>\<open>sin\<close>
  and \<^verbatim>\<open>cos\<close> for \<^verbatim>\<open>Sin\<close> and \<^verbatim>\<open>Cos\<close>; those of the other kinds are
  the parameter \<open>rebuild\<close>, which receives the old node and the new children.
\<close>

fun children :: "rcp \<Rightarrow> rcp list" where
  "children (IntegerP p i) = []"
| "children (RationalP p n d) = []"
| "children (SymbolP p name) = []"
| "children (AddP p xs) = xs"
| "children (MulP p xs) = xs"
| "children (PowP p b e) = [b, e]"
| "children (SinP p arg) = [arg]"
| "children (CosP p arg) = [arg]"
| "children (FunctionSymbolP p name arg) = [arg]"
| "children (DerivativeP p arg x) = arg # map (\<lambda>(q, name). SymbolP q name) x"

definition canonical_constructor ::
  "(rcp \<Rightarrow> rcp list \<Rightarrow> addr \<Rightarrow> error + rcp \<times> addr) \<Rightarrow>
    rcp \<Rightarrow> rcp list \<Rightarrow> addr \<Rightarrow> error + rcp \<times> addr" where
  "canonical_constructor rebuild self cs s =
     (case (self, cs) of
        (SinP p arg, [arg']) \<Rightarrow> sin_rcp arg' s
      | (CosP p arg, [arg']) \<Rightarrow> cos_rcp arg' s
      | _ \<Rightarrow> rebuild self cs s)"

text \<open>A size of references that counts the variables of a derivative, for termination.\<close>

fun rweight :: "rcp \<Rightarrow> nat" where
  "rweight (IntegerP p i) = 1"
| "rweight (RationalP p n d) = 1"
| "rweight (SymbolP p name) = 1"
| "rweight (AddP p xs) = Suc (sum_list (map rweight xs))"
| "rweight (MulP p xs) = Suc (sum_list (map rweight xs))"
| "rweight (PowP p b e) = Suc (rweight b + rweight e)"
| "rweight (SinP p arg) = Suc (rweight arg)"
| "rweight (CosP p arg) = Suc (rweight arg)"
| "rweight (FunctionSymbolP p name arg) = Suc (rweight arg)"
| "rweight (DerivativeP p arg x) = Suc (rweight arg + length x)"

text \<open>
  Modelled from the spec: the four steps of section 4.4 (\<open>subs_spec\<close>), and step 2
  on a list of children, which passes the allocation state from each child to the
  next (\<open>subs_children\<close>).
\<close>

function subs_spec ::
  "(rcp \<Rightarrow> rcp list \<Rightarrow> addr \<Rightarrow> error + rcp \<times> addr) \<Rightarrow>
    map_basic_basic \<Rightarrow> rcp \<Rightarrow> addr \<Rightarrow> error + rcp \<times> addr"
  and subs_children ::
  "(rcp \<Rightarrow> rcp list \<Rightarrow> addr \<Rightarrow> error + rcp \<times> addr) \<Rightarrow>
    map_basic_basic \<Rightarrow> rcp list \<Rightarrow> addr \<Rightarrow> error + rcp list \<times> addr"
where
  "subs_spec rebuild subs_dict self s =
     (case subs_dict (deref self) of
        Some v \<Rightarrow> Inr (v, s)
      | None \<Rightarrow>
          (case subs_children rebuild subs_dict (children self) s of
             Inl e \<Rightarrow> Inl e
           | Inr (cs, s') \<Rightarrow>
               if map ptr cs = map ptr (children self) then Inr (self, s')
               else canonical_constructor rebuild self cs s'))"
| "subs_children rebuild subs_dict [] s = Inr ([], s)"
| "subs_children rebuild subs_dict (c # cs) s =
     (case subs_spec rebuild subs_dict c s of
        Inl e \<Rightarrow> Inl e
      | Inr (c', s1) \<Rightarrow>
          (case subs_children rebuild subs_dict cs s1 of
             Inl e \<Rightarrow> Inl e
           | Inr (cs', s2) \<Rightarrow> Inr (c' # cs', s2)))"
  by pat_completeness auto
termination
proof -
  have pos: "0 < rweight a" for a
    by (cases a) simp_all
  have vars: "sum_list (map (rweight \<circ> (\<lambda>(q, name). SymbolP q name)) x) = length x" for x
    by (induction x) (simp_all split: prod.splits)
  have kids: "Suc (2 * sum_list (map rweight (children a))) < 2 * rweight a" for a
    by (cases a) (simp_all add: vars)
  show ?thesis
    by (relation "measure (\<lambda>v. case v of
                Inl (r, d, a, s) \<Rightarrow> 2 * rweight a
              | Inr (r, d, cs, s) \<Rightarrow> Suc (2 * sum_list (map rweight cs)))")
       (auto simp: kids pos)
qed

declare subs_spec.simps [simp del]

section \<open>Rational numbers\<close>

text \<open>
  Modelled from the spec: the constructor \<^verbatim>\<open>rational(numerator, denominator)\<close>.
  The sources hold only the declaration of \<^verbatim>\<open>rational_set\<close> in
  \<^verbatim>\<open>cwrapper.h\<close> ("Returns 0 if either i or j is not an integer"); the code that
  builds the number is missing. Section 4.2: the constructor fails with
  \<^verbatim>\<open>InvalidRational\<close> if either argument is not an integer value or if the
  denominator is zero; otherwise it reduces to lowest terms, normalises the sign so
  that the denominator is positive, and returns an \<^verbatim>\<open>Integer\<close> when the reduced
  denominator is 1.
\<close>

definition rational :: "basic \<Rightarrow> basic \<Rightarrow> error + basic" where
  "rational numerator denominator =
     (case numerator of
        Integer n \<Rightarrow>
          (case denominator of
             Integer d \<Rightarrow>
               if d = 0 then Inl InvalidRational
               else
                 (let g = gcd n d;
                      n1 = n div g;
                      d1 = d div g;
                      n2 = (if d1 < 0 then - n1 else n1);
                      d2 = (if d1 < 0 then - d1 else d1)
                  in if d2 = 1 then Inr (Integer n2) else Inr (Rational n2 d2))
           | _ \<Rightarrow> Inl InvalidRational)
      | _ \<Rightarrow> Inl InvalidRational)"

section \<open>An instance of the parameters\<close>

text \<open>
  One concrete choice of the parameters, to run the definitions on examples: the
  usual shift-and-xor combiner, a polynomial string hash, the kinds ranked in the
  order of their declaration, a product that only drops the operand \<^verbatim>\<open>one\<close>, and
  the unevaluated derivative for sums, products and powers. Every theorem below that
  has a parameter holds for all instances, not only for this one.
\<close>

definition sample_hash_combine :: "size_t \<Rightarrow> size_t \<Rightarrow> size_t" where
  "sample_hash_combine seed h =
     seed XOR (h + 0x9e3779b9 + push_bit 6 seed + drop_bit 2 seed)"

definition sample_hash_string :: "string \<Rightarrow> size_t" where
  "sample_hash_string name = fold (\<lambda>c h. 31 * h + of_nat (of_char c)) name 0"

definition sample_hash_other :: "basic \<Rightarrow> size_t" where
  "sample_hash_other a =
     (case a of
        Integer i \<Rightarrow> word_of_int i
      | Rational n d \<Rightarrow> sample_hash_combine (word_of_int n) (word_of_int d)
      | Symbol name \<Rightarrow> sample_hash_string name
      | _ \<Rightarrow> of_nat (size a))"

fun sample_kind_rank :: "kind \<Rightarrow> nat" where
  "sample_kind_rank IntegerK = 0"
| "sample_kind_rank RationalK = 1"
| "sample_kind_rank SymbolK = 2"
| "sample_kind_rank AddK = 3"
| "sample_kind_rank MulK = 4"
| "sample_kind_rank PowK = 5"
| "sample_kind_rank SinK = 6"
| "sample_kind_rank CosK = 7"
| "sample_kind_rank FunctionSymbolK = 8"
| "sample_kind_rank DerivativeK = 9"

definition sample_compare_other :: "basic \<Rightarrow> basic \<Rightarrow> int" where
  "sample_compare_other a o' =
     (case (a, o') of
        (Integer i, Integer j) \<Rightarrow> (if i = j then 0 else if i < j then - 1 else 1)
      | (Symbol name, Symbol oname) \<Rightarrow>
          (if name = oname then 0 else if name < oname then - 1 else 1)
      | _ \<Rightarrow> (if a = o' then 0 else if size a < size o' then - 1 else 1))"

definition sample_vec_basic_compare :: "basic list \<Rightarrow> basic list \<Rightarrow> int" where
  "sample_vec_basic_compare A B =
     (if A = B then 0 else if length A < length B then - 1 else 1)"

definition sample_mul :: "basic \<Rightarrow> basic \<Rightarrow> basic" where
  "sample_mul a b = (if b = one then a else if a = one then b else Mul [a, b])"

definition sample_diff_other :: "basic \<Rightarrow> string \<Rightarrow> basic" where
  "sample_diff_other a x = Derivative a [x]"

definition sample_externals :: externals where
  "sample_externals =
     \<lparr> hash_combine = sample_hash_combine,
       hash_string = sample_hash_string,
       hash_other = sample_hash_other,
       kind_rank = sample_kind_rank,
       compare_other = sample_compare_other,
       vec_basic_compare = sample_vec_basic_compare,
       mul = sample_mul,
       diff_other = sample_diff_other \<rparr>"

text \<open>
  An instance of \<open>subs_other\<close>: lookup of the node, and the node itself when it is
  not a key.
\<close>

definition sample_subs_other :: "map_basic_basic \<Rightarrow> rcp \<Rightarrow> addr \<Rightarrow> error + rcp \<times> addr" where
  "sample_subs_other subs_dict a s =
     (case subs_dict (deref a) of Some v \<Rightarrow> Inr (v, s) | None \<Rightarrow> Inr (a, s))"

text \<open>
  An instance of \<open>rebuild\<close>: a new node of the same kind over the new children,
  without any simplification. The variables of a rebuilt derivative are the symbols
  among the new children after the first.
\<close>

fun symbols :: "rcp list \<Rightarrow> (addr \<times> string) list" where
  "symbols [] = []"
| "symbols (SymbolP q name # cs) = (q, name) # symbols cs"
| "symbols (c # cs) = symbols cs"

fun sample_rebuild :: "rcp \<Rightarrow> rcp list \<Rightarrow> addr \<Rightarrow> error + rcp \<times> addr" where
  "sample_rebuild (AddP p xs) cs s = Inr (AddP s cs, Suc s)"
| "sample_rebuild (MulP p xs) cs s = Inr (MulP s cs, Suc s)"
| "sample_rebuild (PowP p b e) [b', e'] s = Inr (PowP s b' e', Suc s)"
| "sample_rebuild (FunctionSymbolP p name arg) [arg'] s =
     Inr (FunctionSymbolP s name arg', Suc s)"
| "sample_rebuild (DerivativeP p arg x) (arg' # x') s =
     Inr (DerivativeP s arg' (symbols x'), Suc s)"
| "sample_rebuild self cs s = Inl AssertionFailed"

section \<open>Properties\<close>

subsection \<open>Equality is identity of trees\<close>

lemma eq_is_equality: "eq a b \<longleftrightarrow> a = b"
  and vec_basic_eq_is_equality: "vec_basic_eq xs ys \<longleftrightarrow> xs = ys"
proof (induction a b and xs ys rule: eq_vec_basic_eq.induct)
qed (auto split: basic.splits list.splits simp: s2b_def inj_on_def)

lemma s2b_inject: "s2b x = s2b y \<longleftrightarrow> x = y"
  by (simp add: s2b_def inj_on_def)

lemma kind_of_is_a:
  "(kind_of o' = SinK) = is_a_Sin o'" "(SinK = kind_of o') = is_a_Sin o'"
  "(kind_of o' = CosK) = is_a_Cos o'" "(CosK = kind_of o') = is_a_Cos o'"
  "(kind_of o' = FunctionSymbolK) = is_a_FunctionSymbol o'"
  "(FunctionSymbolK = kind_of o') = is_a_FunctionSymbol o'"
  "(kind_of o' = DerivativeK) = is_a_Derivative o'"
  "(DerivativeK = kind_of o') = is_a_Derivative o'"
  by (cases o'; simp)+

subsection \<open>Comparison of two sines, of two cosines\<close>

text \<open>
  \<^verbatim>\<open>Sin::compare\<close> compares its argument with the other sine node, not with that
  node's argument. Descending through the arguments of the left node it reaches a
  node that is not a sine, whose kind then differs from the kind of the right node:
  the result is the verdict of the kind ranks and never 0. The same holds for
  \<^verbatim>\<open>Cos::compare\<close>.
\<close>

lemma compare_Sin_never_zero: "compare E (Sin a) (Sin b) \<noteq> Inr 0"
  by (induction a) simp_all

lemma compare_Cos_never_zero: "compare E (Cos a) (Cos b) \<noteq> Inr 0"
  by (induction a) simp_all

text \<open>
  C1. The claim: for all \<^verbatim>\<open>Sin\<close> nodes a and b, and for all \<^verbatim>\<open>Cos\<close> nodes,
  \<^verbatim>\<open>compare(a,b) == 0\<close> if and only if \<^verbatim>\<open>equals(a,b)\<close>. The code at the node
  \<^verbatim>\<open>sin(x)\<close> compared with itself: the two nodes are equal, and
  \<^verbatim>\<open>Sin::compare\<close> returns the rank verdict between the symbol \<^verbatim>\<open>x\<close> and the
  node \<^verbatim>\<open>sin(x)\<close>, which is -1 or 1. Likewise for \<^verbatim>\<open>cos(x)\<close>.
\<close>

theorem compare_Sin_with_itself:
  "eq (Sin (Symbol ''x'')) (Sin (Symbol ''x''))
   \<and> compare E (Sin (Symbol ''x'')) (Sin (Symbol ''x''))
       = Inr (if kind_rank E SymbolK < kind_rank E SinK then - 1 else 1)
   \<and> cmp E (Sin (Symbol ''x'')) (Sin (Symbol ''x'')) \<noteq> Inr 0
   \<and> eq (Cos (Symbol ''x'')) (Cos (Symbol ''x''))
   \<and> compare E (Cos (Symbol ''x'')) (Cos (Symbol ''x''))
       = Inr (if kind_rank E SymbolK < kind_rank E CosK then - 1 else 1)
   \<and> cmp E (Cos (Symbol ''x'')) (Cos (Symbol ''x'')) \<noteq> Inr 0"
  by simp

theorem compare_Sin_with_itself_witness:
  "compare sample_externals (Sin (Symbol ''x'')) (Sin (Symbol ''x'')) = Inr (- 1)
   \<and> compare sample_externals (Cos (Symbol ''x'')) (Cos (Symbol ''x'')) = Inr (- 1)"
  using compare_Sin_with_itself [of sample_externals]
  by (simp add: sample_externals_def)

subsection \<open>Hashing\<close>

text \<open>
  C2. The claim: every kind hashes from a per-kind seed, so that \<^verbatim>\<open>Sin(x)\<close> and
  \<^verbatim>\<open>Cos(x)\<close> start from distinct seeds. In the code every \<^verbatim>\<open>__hash__\<close> starts
  from the seed 0. At the symbol \<^verbatim>\<open>x\<close>, with the sample combiner: both hashes are
  the combination of the seed 0 with the hash of \<^verbatim>\<open>x\<close>, and they are equal.
\<close>

theorem hash_Sin_Cos_collide:
  "hash sample_externals (Sin (Symbol ''x''))
     = hash_combine sample_externals 0 (hash sample_externals (Symbol ''x''))
   \<and> hash sample_externals (Cos (Symbol ''x''))
     = hash_combine sample_externals 0 (hash sample_externals (Symbol ''x''))
   \<and> hash sample_externals (Sin (Symbol ''x'')) = hash sample_externals (Cos (Symbol ''x''))"
  by (simp add: Let_def)

text \<open>
  C2, as the code has it: for \<^verbatim>\<open>Sin\<close>, \<^verbatim>\<open>Cos\<close>, \<^verbatim>\<open>FunctionSymbol\<close> and
  \<^verbatim>\<open>Derivative\<close> the hash starts from the seed 0, whatever the kind, and combines
  it with the hash of the argument, then with the hash of the name (function symbol)
  or with the hashes of the variables in order (derivative); a sine and a cosine of
  the same argument have the same hash, for every combiner.
\<close>

theorem hash_starts_from_zero:
  "hash E (Sin arg) = hash_combine E 0 (hash E arg)
   \<and> hash E (Cos arg) = hash_combine E 0 (hash E arg)
   \<and> hash E (FunctionSymbol name arg)
       = hash_combine E (hash_combine E 0 (hash E arg)) (hash_string E name)
   \<and> hash E (Derivative arg x)
       = fold (\<lambda>xi seed. hash_combine E seed (hash E (Symbol xi))) x
           (hash_combine E 0 (hash E arg))
   \<and> hash E (Sin arg) = hash E (Cos arg)"
  by (simp add: Let_def)

theorem hash_starts_from_zero_witness:
  "hash sample_externals (Sin (Symbol ''x'')) = hash sample_externals (Cos (Symbol ''x''))
   \<and> hash sample_externals (Sin (Symbol ''x'')) = 0x9e3779b9 + 120"
  using hash_starts_from_zero [of sample_externals "Symbol ''x''" "''f''" "[]"]
  by (simp add: sample_externals_def sample_hash_combine_def sample_hash_other_def
      sample_hash_string_def)

text \<open>
  C8. For all nodes a and b, \<^verbatim>\<open>equals(a,b)\<close> implies \<^verbatim>\<open>hash(a) == hash(b)\<close>;
  in particular two function symbols with equal names and structurally equal
  arguments are equal and hash equal, and two derivatives with structurally equal
  expressions and element-wise equal variable lists are equal and hash equal. This
  holds for every combiner, string hash and hash of the other kinds.
\<close>

theorem eq_implies_equal_hash:
  "(eq a b \<longrightarrow> hash E a = hash E b)
   \<and> (eq arg oarg \<longrightarrow>
        eq (FunctionSymbol name arg) (FunctionSymbol name oarg)
        \<and> hash E (FunctionSymbol name arg) = hash E (FunctionSymbol name oarg))
   \<and> (eq arg oarg \<and> vec_basic_eq (s2b x) (s2b ox) \<longrightarrow>
        eq (Derivative arg x) (Derivative oarg ox)
        \<and> hash E (Derivative arg x) = hash E (Derivative oarg ox))"
  by (simp add: eq_is_equality vec_basic_eq_is_equality s2b_inject)

theorem eq_implies_equal_hash_witness:
  "eq (Derivative (FunctionSymbol ''f'' (Symbol ''x'')) [''x'', ''y''])
      (Derivative (FunctionSymbol ''f'' (Symbol ''x'')) [''x'', ''y''])
   \<and> hash sample_externals (Derivative (FunctionSymbol ''f'' (Symbol ''x'')) [''x'', ''y''])
     = hash sample_externals (Derivative (FunctionSymbol ''f'' (Symbol ''x'')) [''x'', ''y''])
   \<and> eq (Symbol ''x'') (Symbol ''x'')
   \<and> vec_basic_eq (s2b [''x'', ''y'']) (s2b [''x'', ''y''])"
  using eq_implies_equal_hash [of "Derivative (FunctionSymbol ''f'' (Symbol ''x'')) [''x'', ''y'']"
      "Derivative (FunctionSymbol ''f'' (Symbol ''x'')) [''x'', ''y'']" sample_externals
      "Symbol ''x''" "Symbol ''x''" "''f''" "[''x'', ''y'']" "[''x'', ''y'']"]
  by (simp add: s2b_def)

subsection \<open>The assertions of the compare methods\<close>

lemma cmp_returns: "\<exists>r. cmp E a o' = Inr r"
  and compare_returns: "kind_of a = kind_of o' \<Longrightarrow> \<exists>r. compare E a o' = Inr r"
proof (induction E a o' and E a o' rule: cmp_compare.induct)
qed (auto split: basic.splits sum.splits simp: kind_of_is_a)

text \<open>
  C10. Each of \<^verbatim>\<open>Sin::compare\<close>, \<^verbatim>\<open>Cos::compare\<close>,
  \<^verbatim>\<open>FunctionSymbol::compare\<close> and \<^verbatim>\<open>Derivative::compare\<close> asserts that the
  other node has its own kind: called with a node of another kind it fails the
  assertion. Called with a node of the same kind it returns a result, and so does
  every comparison it makes on the way, because comparisons of children go through
  \<^verbatim>\<open>__cmp__\<close>, which calls \<^verbatim>\<open>compare\<close> only after it has found the kinds equal.
  So \<^verbatim>\<open>__cmp__\<close> returns a result on all pairs of nodes.
\<close>

theorem compare_assertions:
  "(\<exists>r. cmp E a o' = Inr r)
   \<and> (kind_of o' = kind_of a \<longrightarrow> (\<exists>r. compare E a o' = Inr r))
   \<and> (is_a_Sin a \<and> \<not> is_a_Sin o' \<longrightarrow> compare E a o' = Inl AssertionFailed)
   \<and> (is_a_Cos a \<and> \<not> is_a_Cos o' \<longrightarrow> compare E a o' = Inl AssertionFailed)
   \<and> (is_a_FunctionSymbol a \<and> \<not> is_a_FunctionSymbol o' \<longrightarrow>
        compare E a o' = Inl AssertionFailed)
   \<and> (is_a_Derivative a \<and> \<not> is_a_Derivative o' \<longrightarrow>
        compare E a o' = Inl AssertionFailed)"
proof -
  have 1: "\<exists>r. cmp E a o' = Inr r"
    by (rule cmp_returns)
  have 2: "kind_of o' = kind_of a \<longrightarrow> (\<exists>r. compare E a o' = Inr r)"
    using compare_returns [of a o' E] by simp
  have 3: "is_a_Sin a \<and> \<not> is_a_Sin o' \<longrightarrow> compare E a o' = Inl AssertionFailed"
    by (cases a) simp_all
  have 4: "is_a_Cos a \<and> \<not> is_a_Cos o' \<longrightarrow> compare E a o' = Inl AssertionFailed"
    by (cases a) simp_all
  have 5: "is_a_FunctionSymbol a \<and> \<not> is_a_FunctionSymbol o' \<longrightarrow>
        compare E a o' = Inl AssertionFailed"
    by (cases a; cases o') simp_all
  have 6: "is_a_Derivative a \<and> \<not> is_a_Derivative o' \<longrightarrow>
        compare E a o' = Inl AssertionFailed"
    by (cases a; cases o') simp_all
  from 1 2 3 4 5 6 show ?thesis by blast
qed

theorem compare_assertions_witness:
  "kind_of (FunctionSymbol ''g'' (Symbol ''y'')) = kind_of (FunctionSymbol ''f'' (Symbol ''x''))
   \<and> compare sample_externals (FunctionSymbol ''f'' (Symbol ''x''))
         (FunctionSymbol ''g'' (Symbol ''y'')) = Inr (- 1)
   \<and> cmp sample_externals (FunctionSymbol ''f'' (Symbol ''x''))
         (FunctionSymbol ''f'' (Symbol ''y'')) = Inr (- 1)
   \<and> cmp sample_externals (Derivative (Symbol ''x'') [''x'']) (Sin (Symbol ''x'')) = Inr 1
   \<and> compare sample_externals (Derivative (Symbol ''x'') [''x'']) (Sin (Symbol ''x''))
       = Inl AssertionFailed"
  using compare_assertions [of sample_externals "FunctionSymbol ''f'' (Symbol ''x'')"
      "FunctionSymbol ''g'' (Symbol ''y'')"]
    compare_assertions [of sample_externals "Derivative (Symbol ''x'') [''x'']"
      "Sin (Symbol ''x'')"]
  by (simp add: sample_externals_def sample_compare_other_def)

subsection \<open>Constructors\<close>

lemma sin_returns: "sin arg = Inr (if arg = zero then zero else Sin arg)"
  by (cases arg) (simp_all add: sin_def Sin_new_def Sin_is_canonical_def is_zero_def
      eq_is_equality zero_def)

lemma cos_returns: "cos arg = Inr (if arg = zero then one else Cos arg)"
  by (cases arg) (simp_all add: cos_def Cos_new_def Cos_is_canonical_def is_zero_def
      eq_is_equality zero_def)

lemma Derivative_new_returns: "Derivative_new arg x = Inr (Derivative arg x)"
  by (simp add: Derivative_new_def Derivative_is_canonical_def)

text \<open>
  C5. \<^verbatim>\<open>sin(arg)\<close> returns \<^verbatim>\<open>zero\<close> when \<^verbatim>\<open>arg\<close> structurally equals
  \<^verbatim>\<open>zero\<close> and otherwise builds \<^verbatim>\<open>Sin(arg)\<close> as it is; \<^verbatim>\<open>cos(arg)\<close> returns
  \<^verbatim>\<open>one\<close> when \<^verbatim>\<open>arg\<close> structurally equals \<^verbatim>\<open>zero\<close> and otherwise builds
  \<^verbatim>\<open>Cos(arg)\<close>. Neither fails the assertion of the class constructor, and neither
  returns a node that wraps the literal zero; the class constructors themselves
  refuse the literal zero.
\<close>

theorem sin_cos_constructors:
  "sin arg = Inr (if eq arg zero then zero else Sin arg)
   \<and> cos arg = Inr (if eq arg zero then one else Cos arg)
   \<and> sin arg \<noteq> Inr (Sin zero)
   \<and> cos arg \<noteq> Inr (Cos zero)
   \<and> Sin_new zero = Inl AssertionFailed
   \<and> Cos_new zero = Inl AssertionFailed"
  by (simp add: sin_returns cos_returns eq_is_equality Sin_new_def Cos_new_def
      Sin_is_canonical_def Cos_is_canonical_def is_zero_def zero_def one_def)

theorem sin_cos_constructors_witness:
  "sin (Integer 0) = Inr zero \<and> cos (Integer 0) = Inr one
   \<and> sin (Symbol ''x'') = Inr (Sin (Symbol ''x''))
   \<and> cos (Mul [Integer 2, Symbol ''x'']) = Inr (Cos (Mul [Integer 2, Symbol ''x'']))"
  using sin_cos_constructors [of "Integer 0"] sin_cos_constructors [of "Symbol ''x''"]
    sin_cos_constructors [of "Mul [Integer 2, Symbol ''x'']"]
  by (simp add: zero_def)

subsection \<open>Differentiation\<close>

text \<open>Differentiation returns a node: no assertion fails on the way.\<close>

lemma diff_returns: "\<exists>d. diff E a x = Inr d"
  by (induction E a x rule: diff.induct)
     (auto simp: sin_returns cos_returns Derivative_new_returns Let_def)

text \<open>
  C3. For every function symbol node f(u) and variable x the derivative of u exists;
  if it equals \<^verbatim>\<open>zero\<close> then the derivative of f(u) is \<^verbatim>\<open>zero\<close>, otherwise it
  is the \<^verbatim>\<open>Derivative\<close> node over f(u) with the variable list [x].
  Differentiating a \<^verbatim>\<open>Derivative\<close> node gives the \<^verbatim>\<open>Derivative\<close> over the same
  expression with x appended to its variable list. For f(x): the first derivative has
  the list [x], the second the list [x, x].
\<close>

theorem diff_FunctionSymbol_Derivative:
  "(\<exists>d. diff E u x = Inr d)
   \<and> (\<forall>d. diff E u x = Inr d \<and> eq d zero \<longrightarrow>
          diff E (FunctionSymbol name u) x = Inr zero)
   \<and> (\<forall>d. diff E u x = Inr d \<and> \<not> eq d zero \<longrightarrow>
          diff E (FunctionSymbol name u) x = Inr (Derivative (FunctionSymbol name u) [x]))
   \<and> diff E (Derivative arg xs) x = Inr (Derivative arg (xs @ [x]))
   \<and> function_symbol name (Symbol x) = Inr (FunctionSymbol name (Symbol x))
   \<and> diff E (FunctionSymbol name (Symbol x)) x
       = Inr (Derivative (FunctionSymbol name (Symbol x)) [x])
   \<and> diff E (Derivative (FunctionSymbol name (Symbol x)) [x]) x
       = Inr (Derivative (FunctionSymbol name (Symbol x)) [x, x])"
  by (simp add: diff_returns Derivative_new_returns Let_def function_symbol_def
      FunctionSymbol_new_def FunctionSymbol_is_canonical_def Symbol_diff_def
      eq_is_equality zero_def one_def)

theorem diff_FunctionSymbol_Derivative_witness:
  "diff sample_externals (FunctionSymbol ''f'' (Sin (Symbol ''x''))) ''x''
     = Inr (Derivative (FunctionSymbol ''f'' (Sin (Symbol ''x''))) [''x''])
   \<and> diff sample_externals (FunctionSymbol ''f'' (Symbol ''y'')) ''x'' = Inr zero
   \<and> diff sample_externals (Derivative (FunctionSymbol ''f'' (Symbol ''x'')) [''x'']) ''x''
     = Inr (Derivative (FunctionSymbol ''f'' (Symbol ''x'')) [''x'', ''x''])"
  using diff_FunctionSymbol_Derivative [of sample_externals "Sin (Symbol ''x'')" "''x''" "''f''"
      "FunctionSymbol ''f'' (Symbol ''x'')" "[''x'']"]
    diff_FunctionSymbol_Derivative [of sample_externals "Symbol ''y''" "''x''" "''f''"
      "FunctionSymbol ''f'' (Symbol ''x'')" "[''x'']"]
  by (simp add: sample_externals_def sample_mul_def cos_returns Symbol_diff_def
      zero_def one_def)

text \<open>
  C6. \<^verbatim>\<open>Sin(u).diff(x)\<close> is \<^verbatim>\<open>mul(cos(u), diff(u, x))\<close> and
  \<^verbatim>\<open>Cos(u).diff(x)\<close> is \<^verbatim>\<open>mul(mul(minus_one, sin(u)), diff(u, x))\<close>, for every
  product constructor. When the product constructor drops the operand \<^verbatim>\<open>one\<close>
  (section 4.2: identity elements are eliminated), then for every symbol y the
  derivative of \<^verbatim>\<open>sin(y)\<close> by y is \<^verbatim>\<open>cos(y)\<close> and the derivative of
  \<^verbatim>\<open>cos(y)\<close> by y is \<^verbatim>\<open>mul(minus_one, sin(y))\<close>.
\<close>

theorem diff_Sin_Cos:
  assumes "\<And>a. mul E a one = a"
  shows "(\<exists>c d. cos u = Inr c \<and> diff E u x = Inr d
            \<and> diff E (Sin u) x = Inr (mul E c d))
       \<and> (\<exists>s d. sin u = Inr s \<and> diff E u x = Inr d
            \<and> diff E (Cos u) x = Inr (mul E (mul E minus_one s) d))
       \<and> (\<exists>sy cy. sin (Symbol y) = Inr sy \<and> cos (Symbol y) = Inr cy
            \<and> diff E sy y = Inr cy
            \<and> diff E cy y = Inr (mul E minus_one sy))"
proof -
  obtain d where d: "diff E u x = Inr d"
    using diff_returns by blast
  have 1: "\<exists>c d. cos u = Inr c \<and> diff E u x = Inr d \<and> diff E (Sin u) x = Inr (mul E c d)"
    using d by (simp add: cos_returns)
  have 2: "\<exists>s d. sin u = Inr s \<and> diff E u x = Inr d
            \<and> diff E (Cos u) x = Inr (mul E (mul E minus_one s) d)"
    using d by (simp add: sin_returns)
  have s: "sin (Symbol y) = Inr (Sin (Symbol y))"
    and c: "cos (Symbol y) = Inr (Cos (Symbol y))"
    by (simp_all add: sin_returns cos_returns zero_def)
  have "diff E (Sin (Symbol y)) y = Inr (Cos (Symbol y))"
    by (simp add: c assms Symbol_diff_def)
  moreover have "diff E (Cos (Symbol y)) y = Inr (mul E minus_one (Sin (Symbol y)))"
    by (simp add: s assms Symbol_diff_def)
  ultimately have 3: "\<exists>sy cy. sin (Symbol y) = Inr sy \<and> cos (Symbol y) = Inr cy
            \<and> diff E sy y = Inr cy \<and> diff E cy y = Inr (mul E minus_one sy)"
    using s c by blast
  from 1 2 3 show ?thesis by blast
qed

theorem diff_Sin_Cos_witness:
  "(\<forall>a. mul sample_externals a one = a)
   \<and> diff sample_externals (Sin (Symbol ''x'')) ''x'' = Inr (Cos (Symbol ''x''))
   \<and> diff sample_externals (Cos (Symbol ''x'')) ''x''
       = Inr (Mul [minus_one, Sin (Symbol ''x'')])
   \<and> diff sample_externals (Sin (Sin (Symbol ''x''))) ''x''
       = Inr (Mul [Cos (Sin (Symbol ''x'')), Cos (Symbol ''x'')])"
proof -
  have h: "\<And>a. mul sample_externals a one = a"
    by (simp add: sample_externals_def sample_mul_def)
  show ?thesis
    using h diff_Sin_Cos [OF h, of "Sin (Symbol ''x'')" "''x''" "''x''"]
    by (simp add: sample_externals_def sample_mul_def sin_returns cos_returns
        Symbol_diff_def zero_def one_def minus_one_def)
qed

subsection \<open>The rational constructor\<close>

lemma rational_reduced:
  assumes "d \<noteq> 0"
  shows "\<exists>n' d'. 0 < d' \<and> coprime n' d' \<and> n' * d = n * d'
           \<and> rational (Integer n) (Integer d)
               = Inr (if d' = 1 then Integer n' else Rational n' d')"
proof -
  define g where "g = gcd n d"
  define n1 where "n1 = n div g"
  define d1 where "d1 = d div g"
  have n: "n = n1 * g" and d: "d = d1 * g"
    by (simp_all add: n1_def d1_def g_def)
  have d1: "d1 \<noteq> 0"
    using assms d by auto
  have cop: "coprime n1 d1"
    unfolding n1_def d1_def g_def using assms by (simp add: div_gcd_coprime)
  show ?thesis
  proof (cases "d1 < 0")
    case True
    have "0 < - d1" using True by simp
    moreover have "coprime (- n1) (- d1)" using cop by simp
    moreover have "(- n1) * d = n * (- d1)"
      by (subst n, subst d) (simp add: algebra_simps)
    moreover have "rational (Integer n) (Integer d)
        = Inr (if - d1 = 1 then Integer (- n1) else Rational (- n1) (- d1))"
      using assms True by (simp add: rational_def Let_def g_def n1_def d1_def)
    ultimately show ?thesis by blast
  next
    case False
    have "0 < d1" using False d1 by simp
    moreover have "n1 * d = n * d1"
      by (subst n, subst d) (simp add: algebra_simps)
    moreover have "rational (Integer n) (Integer d)
        = Inr (if d1 = 1 then Integer n1 else Rational n1 d1)"
      using assms False by (simp add: rational_def Let_def g_def n1_def d1_def)
    ultimately show ?thesis using cop by blast
  qed
qed

text \<open>
  C9. \<^verbatim>\<open>rational(numerator, denominator)\<close> fails with \<^verbatim>\<open>InvalidRational\<close> if
  either argument is not an integer or if the denominator is zero. Otherwise, for
  integers n and d with d not 0, the result is the fraction n'/d' of the same value in
  lowest terms with a positive denominator, as an \<^verbatim>\<open>Integer\<close> when d' is 1 and as
  a \<^verbatim>\<open>Rational\<close> otherwise. So \<^verbatim>\<open>rational(4,2)\<close> is \<^verbatim>\<open>integer(2)\<close> and
  \<^verbatim>\<open>rational(1,0)\<close> fails.
\<close>

theorem rational_constructor:
  "(\<not> is_a_Integer numerator \<or> \<not> is_a_Integer denominator \<or> eq denominator zero \<longrightarrow>
      rational numerator denominator = Inl InvalidRational)
   \<and> (d \<noteq> 0 \<longrightarrow>
        (\<exists>n' d'. 0 < d' \<and> coprime n' d' \<and> n' * d = n * d'
           \<and> rational (Integer n) (Integer d)
               = Inr (if d' = 1 then Integer n' else Rational n' d')))
   \<and> rational (Integer 4) (Integer 2) = Inr (Integer 2)
   \<and> rational (Integer 1) (Integer 0) = Inl InvalidRational"
proof -
  have 1: "\<not> is_a_Integer numerator \<or> \<not> is_a_Integer denominator \<or> eq denominator zero \<longrightarrow>
      rational numerator denominator = Inl InvalidRational"
    by (cases numerator; cases denominator)
       (simp_all add: rational_def eq_is_equality zero_def)
  have 2: "d \<noteq> 0 \<longrightarrow>
        (\<exists>n' d'. 0 < d' \<and> coprime n' d' \<and> n' * d = n * d'
           \<and> rational (Integer n) (Integer d)
               = Inr (if d' = 1 then Integer n' else Rational n' d'))"
    using rational_reduced by blast
  have 3: "rational (Integer 4) (Integer 2) = Inr (Integer 2)"
    by (simp add: rational_def Let_def)
  have 4: "rational (Integer 1) (Integer 0) = Inl InvalidRational"
    by (simp add: rational_def)
  from 1 2 3 4 show ?thesis by blast
qed

theorem rational_constructor_witness:
  "rational (Symbol ''x'') (Integer 2) = Inl InvalidRational
   \<and> rational (Integer 3) zero = Inl InvalidRational
   \<and> rational (Integer 6) (Integer (- 4)) = Inr (Rational (- 3) 2)
   \<and> (\<exists>n' d'. 0 < d' \<and> coprime n' d' \<and> n' * (- 4) = 6 * d'
        \<and> rational (Integer 6) (Integer (- 4))
            = Inr (if d' = 1 then Integer n' else Rational n' d'))"
proof -
  have g: "gcd (6::int) 4 = 2"
    by (subst gcd_red_int) simp
  show ?thesis
    using rational_constructor [of "Symbol ''x''" "Integer 2" "- 4" 6]
      rational_constructor [of "Integer 3" zero "- 4" 6]
    by (simp add: rational_def Let_def zero_def g)
qed

subsection \<open>Substitution\<close>

lemma deref_zero_rcp: "deref zero_rcp = zero"
  by (simp add: zero_rcp_def zero_def)

lemma sin_rcp_returns:
  "sin_rcp arg s = Inr (if deref arg = zero then (zero_rcp, s) else (SinP s arg, Suc s))"
  by (cases "deref arg")
     (simp_all add: sin_rcp_def Sin_new_rcp_def Sin_is_canonical_def is_zero_def
        eq_is_equality deref_zero_rcp zero_def)

lemma cos_rcp_returns:
  "cos_rcp arg s = Inr (if deref arg = zero then (one_rcp, s) else (CosP s arg, Suc s))"
  by (cases "deref arg")
     (simp_all add: cos_rcp_def Cos_new_rcp_def Cos_is_canonical_def is_zero_def
        eq_is_equality deref_zero_rcp zero_def)

text \<open>
  The constructors on references build the nodes that the constructors on trees
  build: forgetting the addresses turns \<open>sin_rcp\<close> into \<open>sin\<close> and \<open>cos_rcp\<close>
  into \<open>cos\<close>.
\<close>

lemma sin_rcp_deref: "sin_rcp arg s = Inr (r, s') \<Longrightarrow> sin (deref arg) = Inr (deref r)"
  by (cases "deref arg")
     (auto simp: sin_rcp_def Sin_new_rcp_def sin_def Sin_new_def deref_zero_rcp
       split: if_splits)

lemma cos_rcp_deref: "cos_rcp arg s = Inr (r, s') \<Longrightarrow> cos (deref arg) = Inr (deref r)"
  by (cases "deref arg")
     (auto simp: cos_rcp_def Cos_new_rcp_def cos_def Cos_new_def deref_zero_rcp
       one_rcp_def one_def split: if_splits)

text \<open>
  C4. When a \<^verbatim>\<open>Sin\<close> or \<^verbatim>\<open>Cos\<close> node is not a key of the mapping and
  substitution changes its argument (returns another pointer), the result is what the
  canonical constructor \<^verbatim>\<open>sin\<close> or \<^verbatim>\<open>cos\<close> returns for the new argument, so
  a new argument equal to \<^verbatim>\<open>zero\<close> gives \<^verbatim>\<open>zero\<close> or \<^verbatim>\<open>one\<close> and no new
  node. In particular, for the symbol x (an object other than the singleton
  \<^verbatim>\<open>zero\<close>), substituting \<^verbatim>\<open>zero\<close> for x in \<^verbatim>\<open>sin(x)\<close> returns \<^verbatim>\<open>zero\<close>.
\<close>

theorem subs_rebuilds_through_constructor:
  "(D (deref (SinP p arg)) = None \<and> subs X D arg s = Inr (arg', s') \<and> ptr arg' \<noteq> ptr arg \<longrightarrow>
      subs X D (SinP p arg) s = sin_rcp arg' s')
   \<and> (D (deref (CosP p arg)) = None \<and> subs X D arg s = Inr (arg', s') \<and> ptr arg' \<noteq> ptr arg \<longrightarrow>
      subs X D (CosP p arg) s = cos_rcp arg' s')
   \<and> (deref arg' = zero \<longrightarrow>
        sin_rcp arg' s' = Inr (zero_rcp, s') \<and> cos_rcp arg' s' = Inr (one_rcp, s'))
   \<and> (q \<noteq> ptr zero_rcp \<longrightarrow>
        sin_rcp (SymbolP q x) s = Inr (SinP s (SymbolP q x), Suc s)
        \<and> subs X [Symbol x \<mapsto> zero_rcp] (SinP s (SymbolP q x)) (Suc s) = Inr (zero_rcp, Suc s)
        \<and> eq (deref zero_rcp) zero)"
  by (simp add: Let_def sin_rcp_returns cos_rcp_returns deref_zero_rcp eq_is_equality
      leaf_subs_def zero_def zero_rcp_def)

theorem subs_rebuilds_through_constructor_witness:
  "sin_rcp (SymbolP 3 ''x'') 4 = Inr (SinP 4 (SymbolP 3 ''x''), 5)
   \<and> subs sample_subs_other [Symbol ''x'' \<mapsto> zero_rcp] (SinP 4 (SymbolP 3 ''x'')) 5
       = Inr (zero_rcp, 5)
   \<and> subs sample_subs_other [Symbol ''x'' \<mapsto> SymbolP 6 ''y''] (SinP 4 (SymbolP 3 ''x'')) 5
       = Inr (SinP 5 (SymbolP 6 ''y''), 6)
   \<and> subs sample_subs_other [Symbol ''x'' \<mapsto> zero_rcp] (CosP 4 (SymbolP 3 ''x'')) 5
       = Inr (one_rcp, 5)"
  using subs_rebuilds_through_constructor [of "[Symbol ''x'' \<mapsto> zero_rcp]" 4
      "SymbolP 3 ''x''" sample_subs_other 5 zero_rcp 5 3 "''x''"]
    subs_rebuilds_through_constructor [of "[Symbol ''x'' \<mapsto> SymbolP 6 ''y'']" 4
      "SymbolP 3 ''x''" sample_subs_other 5 "SymbolP 6 ''y''" 5 3 "''x''"]
  by (simp add: zero_rcp_def one_rcp_def zero_def sin_rcp_returns cos_rcp_returns Let_def
      leaf_subs_def)

text \<open>
  The code agrees with section 4.4: with \<open>subs_spec\<close> for the kinds outside the
  sources, \<^verbatim>\<open>Sin::subs\<close> and \<^verbatim>\<open>Cos::subs\<close> and the leaves compute what the
  four steps compute, on every node.
\<close>

lemma subs_children_single:
  "subs_children R D [c] s =
     (case subs_spec R D c s of Inl e \<Rightarrow> Inl e | Inr (c', s1) \<Rightarrow> Inr ([c'], s1))"
  by (simp split: sum.splits prod.splits)

lemma subs_is_subs_spec: "subs (subs_spec R) D n s = subs_spec R D n s"
proof (induction n arbitrary: s)
  case (SinP p arg)
  show ?case
    by (auto simp: subs_spec.simps [of R D "SinP p arg"] SinP subs_children_single
        canonical_constructor_def Let_def split: option.splits sum.splits prod.splits)
next
  case (CosP p arg)
  show ?case
    by (auto simp: subs_spec.simps [of R D "CosP p arg"] CosP subs_children_single
        canonical_constructor_def Let_def split: option.splits sum.splits prod.splits)
qed (simp_all add: subs_spec.simps leaf_subs_def split: option.splits)

lemma subs_spec_empty: "subs_spec R Map.empty n s = Inr (n, s)"
  and subs_children_empty: "subs_children R Map.empty cs s = Inr (cs, s)"
proof (induction R "Map.empty :: map_basic_basic" n s and R "Map.empty :: map_basic_basic" cs s
    rule: subs_spec_subs_children.induct)
  case (1 rebuild self s)
  then show ?case by (simp add: subs_spec.simps)
next
  case (2 rebuild s)
  show ?case by simp
next
  case (3 rebuild c cs s)
  then show ?case by simp
qed

text \<open>
  The test is on the object, not on its structure: when the argument of a canonical
  \<^verbatim>\<open>Sin\<close> node comes back as another object, even a structurally equal one, the
  node is rebuilt, and the new node is structurally equal to the old one.
\<close>

lemma subs_replacement_by_equal_object:
  assumes "D (deref (SinP p arg)) = None" and "subs X D arg s = Inr (arg', s')"
    and "ptr arg' \<noteq> ptr arg" and "deref arg' = deref arg" and "deref arg \<noteq> zero"
  shows "subs X D (SinP p arg) s = Inr (SinP s' arg', Suc s')
         \<and> deref (SinP s' arg') = deref (SinP p arg)"
  using assms by (simp add: Let_def sin_rcp_returns)

text \<open>
  C7. Substitution returns the original node itself, the same object, without an
  allocation of its own, whenever no child changed. This is step 3 of section 4.4,
  reached after the lookup of the node itself (step 1) has missed; a child has not
  changed when the same object comes back for it.
  \<^item> \<^verbatim>\<open>Sin::subs\<close> and \<^verbatim>\<open>Cos::subs\<close>, for every mapping and whatever the other
    kinds do: a node that is not a key and whose argument comes back as the same
    object is returned itself, in the allocation state the argument left.
  \<^item> With the empty mapping every node is returned itself and nothing is allocated.
  \<^item> For every node and every mapping: a node that is not a key and whose children
    all come back as the same objects is returned itself.
  In the last two statements the kinds whose \<^verbatim>\<open>subs\<close> is outside the sources
  follow section 4.4, with any canonical constructors.
\<close>

theorem subs_returns_the_node_itself:
  "(D (deref (SinP p arg)) = None \<and> subs X D arg s = Inr (arg', s') \<and> ptr arg' = ptr arg \<longrightarrow>
      subs X D (SinP p arg) s = Inr (SinP p arg, s'))
   \<and> (D (deref (CosP p arg)) = None \<and> subs X D arg s = Inr (arg', s') \<and> ptr arg' = ptr arg \<longrightarrow>
      subs X D (CosP p arg) s = Inr (CosP p arg, s'))
   \<and> subs (subs_spec R) Map.empty n s = Inr (n, s)
   \<and> (D (deref n) = None \<and> subs_children R D (children n) s = Inr (cs, s')
        \<and> map ptr cs = map ptr (children n) \<longrightarrow>
      subs (subs_spec R) D n s = Inr (n, s'))"
  by (simp add: subs_is_subs_spec subs_spec_empty) (simp add: subs_spec.simps)

theorem subs_returns_the_node_itself_witness:
  "subs (subs_spec sample_rebuild) Map.empty
       (AddP 6 [CosP 5 (SinP 4 (FunctionSymbolP 3 ''f'' (SymbolP 2 ''x''))), SymbolP 2 ''x'']) 7
     = Inr (AddP 6 [CosP 5 (SinP 4 (FunctionSymbolP 3 ''f'' (SymbolP 2 ''x''))), SymbolP 2 ''x''], 7)
   \<and> subs sample_subs_other [Symbol ''y'' \<mapsto> zero_rcp] (SymbolP 3 ''x'') 5
       = Inr (SymbolP 3 ''x'', 5)
   \<and> subs sample_subs_other [Symbol ''y'' \<mapsto> zero_rcp] (SinP 4 (SymbolP 3 ''x'')) 5
       = Inr (SinP 4 (SymbolP 3 ''x''), 5)
   \<and> subs_children sample_rebuild [Symbol ''y'' \<mapsto> zero_rcp]
         (children (FunctionSymbolP 4 ''f'' (SymbolP 3 ''x''))) 5 = Inr ([SymbolP 3 ''x''], 5)
   \<and> subs (subs_spec sample_rebuild) [Symbol ''y'' \<mapsto> zero_rcp]
         (FunctionSymbolP 4 ''f'' (SymbolP 3 ''x'')) 5
       = Inr (FunctionSymbolP 4 ''f'' (SymbolP 3 ''x''), 5)"
  using subs_returns_the_node_itself [of "[Symbol ''y'' \<mapsto> zero_rcp]" 4 "SymbolP 3 ''x''"
      sample_subs_other 5 "SymbolP 3 ''x''" 5 sample_rebuild
      "AddP 6 [CosP 5 (SinP 4 (FunctionSymbolP 3 ''f'' (SymbolP 2 ''x''))), SymbolP 2 ''x'']"]
    subs_returns_the_node_itself [of "[Symbol ''y'' \<mapsto> zero_rcp]" 4 "SymbolP 3 ''x''"
      sample_subs_other 5 "SymbolP 3 ''x''" 5 sample_rebuild
      "FunctionSymbolP 4 ''f'' (SymbolP 3 ''x'')" "[SymbolP 3 ''x'']"]
  by (simp add: leaf_subs_def subs_spec.simps)

end
